theory Spec2Isabelle
  imports Complex_Main "HOL-Library.Char_ord" "HOL-Library.List_Lexorder"
    "HOL-Library.Multiset" "HOL-Library.Sublist"
begin

section \<open>ETA/ATA deep dive by BOL: the data model\<close>

text \<open>
  The program (\<^verbatim>\<open>src/app.py\<close>) reads a CSV with every cell as a string, copies five
  role-mapped columns into the working columns \<^verbatim>\<open>identifier\<close>, \<^verbatim>\<open>shipment_type\<close>,
  \<^verbatim>\<open>bol_id\<close>, \<^verbatim>\<open>eta\<close>, \<^verbatim>\<open>ata\<close>, keeps the container rows, parses the two timestamp
  columns, groups by \<^verbatim>\<open>bol_id\<close> and derives four tables. The model starts at the five
  working columns: one record per row of \<^verbatim>\<open>work_df\<close>. Strings are modelled over ASCII:
  one \<^typ>\<open>char\<close> is one code point, and Python's Unicode tables for code points beyond
  ASCII are not part of the model.
\<close>

record row =
  "identifier" :: string
  shipment_type :: string
  bol_id :: string
  eta :: string
  ata :: string

text \<open>
  A row of \<^verbatim>\<open>containers\<close> after lines 110-111: the five working columns and the two
  parsed columns. A timestamp is an integer count of nanoseconds since the epoch
  (pandas' \<^verbatim>\<open>datetime64[ns]\<close>); \<^verbatim>\<open>NaT\<close> is \<^term>\<open>None\<close>. The integers are unbounded:
  the 64-bit range of a pandas timestamp is not part of the model.
\<close>

record container_row = row +
  eta_dt :: "int option"
  ata_dt :: "int option"

text \<open>
  A value handed to \<^verbatim>\<open>classify_spread_hours\<close>: Python's \<^verbatim>\<open>None\<close>, the float
  \<^verbatim>\<open>NaN\<close>, or a number. Floating-point rounding and the infinities are not modelled:
  numbers are reals.
\<close>

datatype pyval = PyNone | NaN | Num real

record bol_agg =
  n_containers :: nat
  n_eta_present :: nat
  n_eta_missing :: nat
  n_ata_present :: nat
  n_ata_missing :: nat
  eta_min :: "int option"
  eta_max :: "int option"
  ata_min :: "int option"
  ata_max :: "int option"
  eta_spread_hours :: pyval
  ata_spread_hours :: pyval
  eta_spread_bucket :: string
  ata_spread_bucket :: string

record summary_row =
  metric :: string
  bucket :: string
  description :: string
  count :: nat

section \<open>The spread classifier (lines 52-60)\<close>

fun classify_spread_hours :: "pyval \<Rightarrow> string" where
  "classify_spread_hours PyNone = ''NO_VALID_TIMESTAMP''"
| "classify_spread_hours NaN = ''NO_VALID_TIMESTAMP''"
| "classify_spread_hours (Num v) =
     (if v = 0 then ''NO_DIFFERENCE''
      else if 0 < v \<and> v \<le> 24 then ''BETWEEN_1_AND_24_HOURS''
      else ''MORE_THAN_24_HOURS'')"

section \<open>String helpers of the container filter and the presence counts\<close>

text \<open>
  \<^verbatim>\<open>str.strip()\<close> removes leading and trailing whitespace; in ASCII, Python's
  \<^verbatim>\<open>str.isspace\<close> holds for the code points 9-13, 28-31 and 32.
\<close>

definition isspace :: "char \<Rightarrow> bool" where
  "isspace c \<longleftrightarrow> c \<in> set [CHR 0x09, CHR 0x0A, CHR 0x0B, CHR 0x0C, CHR 0x0D,
                          CHR 0x1C, CHR 0x1D, CHR 0x1E, CHR 0x1F, CHR 0x20]"

definition strip :: "string \<Rightarrow> string" where
  "strip s = rev (dropWhile isspace (rev (dropWhile isspace s)))"

definition upper_char :: "char \<Rightarrow> char" where
  "upper_char c =
     (case map_of (zip ''abcdefghijklmnopqrstuvwxyz'' ''ABCDEFGHIJKLMNOPQRSTUVWXYZ'') c of
        Some u \<Rightarrow> u
      | None \<Rightarrow> c)"

definition upper :: "string \<Rightarrow> string" where
  "upper s = map upper_char s"

text \<open>The predicate of the filter at lines 92-97, on one cell of \<^verbatim>\<open>shipment_type\<close>.\<close>

definition is_container :: "string \<Rightarrow> bool" where
  "is_container s \<longleftrightarrow> upper (strip s) \<in> set [''CONTAINER'', ''CONTAINER_ID'']"

section \<open>Timestamp parsing (lines 110-111)\<close>

text \<open>
  Modelled from the spec: \<^verbatim>\<open>pd.to_datetime(..., errors="coerce")\<close> is a call into the
  pandas library, whose body is not under \<^verbatim>\<open>src/\<close>. Section 4.1 of the spec gives its
  contract: \<^verbatim>\<open>parse(raw: string) -> optional<Timestamp>\<close>, \<^verbatim>\<open>none\<close> for the empty string
  and for any string the underlying general-purpose date parser cannot interpret, and no
  error for malformed input. The grammar of that underlying parser is the parameter
  \<open>g\<close>; it answers \<^term>\<open>None\<close> where it cannot interpret its input. The contract is per
  string: the result for one cell does not depend on the other cells of its column.
\<close>

definition to_datetime :: "(string \<Rightarrow> int option) \<Rightarrow> string \<Rightarrow> int option" where
  "to_datetime g raw = (if raw = [] then None else g raw)"

definition parse_row :: "(string \<Rightarrow> int option) \<Rightarrow> row \<Rightarrow> container_row" where
  "parse_row g r =
     row.extend r \<lparr> eta_dt = to_datetime g (eta r), ata_dt = to_datetime g (ata r) \<rparr>"

definition containers :: "(string \<Rightarrow> int option) \<Rightarrow> row list \<Rightarrow> container_row list" where
  "containers g work_df =
     map (parse_row g) (filter (\<lambda>r. is_container (shipment_type r)) work_df)"

section \<open>Grouping and aggregation (lines 114-148)\<close>

text \<open>
  \<^verbatim>\<open>groupby("bol_id", dropna=False)\<close> with the default \<^verbatim>\<open>sort=True\<close>: one group per
  distinct key, the groups in ascending key order, the rows of a group in input order.
\<close>

definition groupby_bol_id :: "container_row list \<Rightarrow> (string \<times> container_row list) list" where
  "groupby_bol_id cs =
     map (\<lambda>k. (k, filter (\<lambda>r. bol_id r = k) cs)) (sort (remdups (map bol_id cs)))"

text \<open>The \<^verbatim>\<open>"min"\<close> and \<^verbatim>\<open>"max"\<close> reductions skip \<^verbatim>\<open>NaT\<close> and give \<^verbatim>\<open>NaT\<close> on no value.\<close>

primrec dropna :: "'a option list \<Rightarrow> 'a list" where
  "dropna [] = []"
| "dropna (x # xs) = (case x of None \<Rightarrow> dropna xs | Some t \<Rightarrow> t # dropna xs)"

definition ts_min :: "int option list \<Rightarrow> int option" where
  "ts_min xs = (case dropna xs of [] \<Rightarrow> None | t # ts \<Rightarrow> Some (fold min ts t))"

definition ts_max :: "int option list \<Rightarrow> int option" where
  "ts_max xs = (case dropna xs of [] \<Rightarrow> None | t # ts \<Rightarrow> Some (fold max ts t))"

text \<open>
  Lines 131-140: \<^verbatim>\<open>(max - min).dt.total_seconds() / 3600.0\<close>, \<^verbatim>\<open>NaN\<close> when either side
  is \<^verbatim>\<open>NaT\<close>.
\<close>

definition spread_hours :: "int option \<Rightarrow> int option \<Rightarrow> pyval" where
  "spread_hours mn mx =
     (case (mn, mx) of
        (Some a, Some b) \<Rightarrow> Num (real_of_int (b - a) / 1000000000 / 3600)
      | _ \<Rightarrow> NaN)"

definition aggregate :: "container_row list \<Rightarrow> bol_agg" where
  "aggregate grp =
     (let emin = ts_min (map eta_dt grp); emax = ts_max (map eta_dt grp);
          amin = ts_min (map ata_dt grp); amax = ts_max (map ata_dt grp);
          es = spread_hours emin emax; as = spread_hours amin amax
      in \<lparr> n_containers = length grp,
           n_eta_present = length (filter (\<lambda>r. strip (eta r) \<noteq> []) grp),
           n_eta_missing = length (filter (\<lambda>r. strip (eta r) = []) grp),
           n_ata_present = length (filter (\<lambda>r. strip (ata r) \<noteq> []) grp),
           n_ata_missing = length (filter (\<lambda>r. strip (ata r) = []) grp),
           eta_min = emin, eta_max = emax, ata_min = amin, ata_max = amax,
           eta_spread_hours = es, ata_spread_hours = as,
           eta_spread_bucket = classify_spread_hours es,
           ata_spread_bucket = classify_spread_hours as \<rparr>)"

text \<open>The frame \<^verbatim>\<open>bol_spread\<close>: one aggregate per BOL, keyed by \<^verbatim>\<open>bol_id\<close>.\<close>

definition bol_spread :: "container_row list \<Rightarrow> (string \<times> bol_agg) list" where
  "bol_spread cs = map (\<lambda>(k, grp). (k, aggregate grp)) (groupby_bol_id cs)"

section \<open>Mixed ATA presence (lines 182-190)\<close>

definition mixed_ata_bols :: "(string \<times> bol_agg) list \<Rightarrow> string list" where
  "mixed_ata_bols bs = map fst (filter (\<lambda>(k, a). n_ata_present a > 0 \<and> n_ata_missing a > 0) bs)"

definition bol_mixed_ata_presence_detail :: "container_row list \<Rightarrow> row list" where
  "bol_mixed_ata_presence_detail cs =
     map row.truncate
       (filter (\<lambda>r. bol_id r \<in> set (mixed_ata_bols (bol_spread cs))) cs)"

section \<open>The summary table (lines 193-250)\<close>

definition bucket_descriptions :: "(string \<times> string) list" where
  "bucket_descriptions =
     [(''NO_DIFFERENCE'', ''Spread = 0 hours''),
      (''BETWEEN_1_AND_24_HOURS'',
         ''Spread > 0 and '' @ [CHR 0xE2, CHR 0x89, CHR 0xA4] @ '' 24 hours''),
      (''MORE_THAN_24_HOURS'', ''Spread > 24 hours''),
      (''NO_VALID_TIMESTAMP'', ''No parsable timestamps for this metric in the BOL''),
      (''MIXED_PRESENT_AND_MISSING'',
         ''BOLs where some containers have ATA and others do not'')]"

definition describe :: "string \<Rightarrow> string" where
  "describe b = (case map_of bucket_descriptions b of Some d \<Rightarrow> d | None \<Rightarrow> b)"

text \<open>
  \<^verbatim>\<open>Series.value_counts(dropna=False).to_dict()\<close>: the distinct values in order of first
  appearance, each with its number of occurrences, sorted by descending count (ties keep
  their order). The theorems below do not depend on this order.
\<close>

definition value_counts :: "string list \<Rightarrow> (string \<times> nat) list" where
  "value_counts xs =
     sort_key (\<lambda>(b, c). - int c)
       (map (\<lambda>b. (b, count_list xs b)) (rev (remdups (rev xs))))"

definition metric_rows :: "string \<Rightarrow> string list \<Rightarrow> summary_row list" where
  "metric_rows m buckets =
     map (\<lambda>(b, c). \<lparr> metric = m, bucket = b, description = describe b, count = c \<rparr>)
       (value_counts buckets)"

definition mixed_row :: "(string \<times> bol_agg) list \<Rightarrow> summary_row" where
  "mixed_row bs =
     \<lparr> metric = ''ATA_MIXED_PRESENCE'', bucket = ''MIXED_PRESENT_AND_MISSING'',
       description = describe ''MIXED_PRESENT_AND_MISSING'',
       count = length (mixed_ata_bols bs) \<rparr>"

definition summary_df :: "(string \<times> bol_agg) list \<Rightarrow> summary_row list" where
  "summary_df bs =
     metric_rows ''ETA'' (map (\<lambda>(k, a). eta_spread_bucket a) bs)
     @ metric_rows ''ATA'' (map (\<lambda>(k, a). ata_spread_bucket a) bs)
     @ [mixed_row bs]"

section \<open>The run (lines 82-284)\<close>

text \<open>
  With no container row the program shows a warning and builds no table (line 99);
  otherwise it builds the four tables of the ZIP.
\<close>

datatype notice = No_container_rows

record report =
  bol_eta_spread :: "(string \<times> nat \<times> nat \<times> nat \<times> int option \<times> int option \<times> pyval \<times> string) list"
  bol_ata_spread :: "(string \<times> nat \<times> nat \<times> nat \<times> int option \<times> int option \<times> pyval \<times> string) list"
  mixed_detail :: "row list"
  summary :: "summary_row list"

definition eta_view ::
  "string \<times> bol_agg \<Rightarrow> string \<times> nat \<times> nat \<times> nat \<times> int option \<times> int option \<times> pyval \<times> string" where
  "eta_view = (\<lambda>(k, a). (k, n_containers a, n_eta_present a, n_eta_missing a,
                          eta_min a, eta_max a, eta_spread_hours a, eta_spread_bucket a))"

definition ata_view ::
  "string \<times> bol_agg \<Rightarrow> string \<times> nat \<times> nat \<times> nat \<times> int option \<times> int option \<times> pyval \<times> string" where
  "ata_view = (\<lambda>(k, a). (k, n_containers a, n_ata_present a, n_ata_missing a,
                          ata_min a, ata_max a, ata_spread_hours a, ata_spread_bucket a))"

definition run :: "(string \<Rightarrow> int option) \<Rightarrow> row list \<Rightarrow> notice + report" where
  "run g work_df =
     (let cs = containers g work_df in
      if cs = [] then Inl No_container_rows
      else let bs = bol_spread cs in
        Inr \<lparr> bol_eta_spread = map eta_view bs,
              bol_ata_spread = map ata_view bs,
              mixed_detail = bol_mixed_ata_presence_detail cs,
              summary = summary_df bs \<rparr>)"

section \<open>Views used to state the properties\<close>

text \<open>The key and the five counts of one row of \<^verbatim>\<open>bol_spread\<close>.\<close>

definition presence_view :: "string \<times> bol_agg \<Rightarrow> string \<times> nat \<times> nat \<times> nat \<times> nat \<times> nat" where
  "presence_view = (\<lambda>(k, a). (k, n_containers a, n_eta_present a, n_eta_missing a,
                               n_ata_present a, n_ata_missing a))"

section \<open>Sample data\<close>

text \<open>
  A small table in the shape of the spec's scenarios: BOL \<^verbatim>\<open>B3\<close> with two containers, one
  of them without ATA, and a third whose ETA and ATA are text that is not a date; BOL
  \<^verbatim>\<open>B2\<close> with one container whose ETA is not a date; and a truck row. The sample grammar knows the three date strings of the table.
\<close>

definition sample_grammar :: "string \<Rightarrow> int option" where
  "sample_grammar =
     map_of [(''2024-01-01T00:00:00'', 1704067200000000000),
             (''2024-01-01T12:00:00'', 1704110400000000000),
             (''2024-02-01'', 1706745600000000000)]"

definition sample_table :: "row list" where
  "sample_table =
     [\<lparr> identifier = ''C1'', shipment_type = ''Container'', bol_id = ''B3'',
        eta = ''2024-01-01T00:00:00'', ata = ''2024-02-01'' \<rparr>,
      \<lparr> identifier = ''T1'', shipment_type = ''TRUCK'', bol_id = ''B3'',
        eta = ''2024-01-01T00:00:00'', ata = [] \<rparr>,
      \<lparr> identifier = ''C2'', shipment_type = '' container_id '', bol_id = ''B3'',
        eta = ''2024-01-01T12:00:00'', ata = '' '' \<rparr>,
      \<lparr> identifier = ''C3'', shipment_type = ''CONTAINER'', bol_id = ''B2'',
        eta = ''soon'', ata = [] \<rparr>,
      \<lparr> identifier = ''C4'', shipment_type = ''CONTAINER'', bol_id = ''B3'',
        eta = ''tbd'', ata = ''n/a'' \<rparr>]"

definition c1 :: container_row where
  "c1 = \<lparr> identifier = ''C1'', shipment_type = ''Container'', bol_id = ''B3'',
          eta = ''2024-01-01T00:00:00'', ata = ''2024-02-01'',
          eta_dt = Some 1704067200000000000, ata_dt = Some 1706745600000000000 \<rparr>"

definition c2 :: container_row where
  "c2 = \<lparr> identifier = ''C2'', shipment_type = '' container_id '', bol_id = ''B3'',
          eta = ''2024-01-01T12:00:00'', ata = '' '',
          eta_dt = Some 1704110400000000000, ata_dt = None \<rparr>"

definition c3 :: container_row where
  "c3 = \<lparr> identifier = ''C3'', shipment_type = ''CONTAINER'', bol_id = ''B2'',
          eta = ''soon'', ata = [], eta_dt = None, ata_dt = None \<rparr>"

definition c4 :: container_row where
  "c4 = \<lparr> identifier = ''C4'', shipment_type = ''CONTAINER'', bol_id = ''B3'',
          eta = ''tbd'', ata = ''n/a'', eta_dt = None, ata_dt = None \<rparr>"

section \<open>Auxiliary facts\<close>

subsection \<open>The sample table\<close>

lemma containers_sample: "containers sample_grammar sample_table = [c1, c2, c3, c4]"
  by (simp add: containers_def sample_table_def is_container_def upper_def upper_char_def
      strip_def isspace_def parse_row_def to_datetime_def sample_grammar_def
      row.extend_def c1_def c2_def c3_def c4_def)

lemma bol_spread_sample:
  "bol_spread [c1, c2, c3, c4] = [(''B2'', aggregate [c3]), (''B3'', aggregate [c1, c2, c4])]"
  by (simp add: bol_spread_def groupby_bol_id_def c1_def c2_def c3_def c4_def)

subsection \<open>Grouping\<close>

lemma map_fst_bol_spread: "map fst (bol_spread cs) = sort (remdups (map bol_id cs))"
  by (simp add: bol_spread_def groupby_bol_id_def comp_def)

lemma bol_spread_iff:
  "(k, a) \<in> set (bol_spread cs) \<longleftrightarrow>
     k \<in> bol_id ` set cs \<and> a = aggregate (filter (\<lambda>r. bol_id r = k) cs)"
  by (auto simp: bol_spread_def groupby_bol_id_def)

subsection \<open>The reductions depend on the rows of a group, not on their order\<close>

lemma set_dropna: "set (dropna xs) = {t. Some t \<in> set xs}"
  by (induction xs) (auto split: option.splits)

lemma fold_min_Min: "fold min ts (t::int) = Min (set (t # ts))"
  by (rule Min.set_eq_fold [symmetric])

lemma fold_max_Max: "fold max ts (t::int) = Max (set (t # ts))"
  by (rule Max.set_eq_fold [symmetric])

lemma ts_min_eq:
  "ts_min xs = (if {t. Some t \<in> set xs} = {} then None else Some (Min {t. Some t \<in> set xs}))"
proof (cases "dropna xs")
  case Nil
  then show ?thesis using set_dropna [of xs] by (simp add: ts_min_def)
next
  case (Cons t ts)
  then have "set (t # ts) = {t. Some t \<in> set xs}" using set_dropna [of xs] by simp
  moreover have "t \<in> set (t # ts)" by simp
  ultimately show ?thesis using Cons fold_min_Min [of ts t]
    by (auto simp: ts_min_def simp del: set_simps)
qed

lemma ts_max_eq:
  "ts_max xs = (if {t. Some t \<in> set xs} = {} then None else Some (Max {t. Some t \<in> set xs}))"
proof (cases "dropna xs")
  case Nil
  then show ?thesis using set_dropna [of xs] by (simp add: ts_max_def)
next
  case (Cons t ts)
  then have "set (t # ts) = {t. Some t \<in> set xs}" using set_dropna [of xs] by simp
  moreover have "t \<in> set (t # ts)" by simp
  ultimately show ?thesis using Cons fold_max_Max [of ts t]
    by (auto simp: ts_max_def simp del: set_simps)
qed

lemma ts_min_cong_set: "set xs = set ys \<Longrightarrow> ts_min xs = ts_min ys"
  by (simp add: ts_min_eq)

lemma ts_max_cong_set: "set xs = set ys \<Longrightarrow> ts_max xs = ts_max ys"
  by (simp add: ts_max_eq)

lemma length_filter_mset: "mset xs = mset ys \<Longrightarrow> length (filter P xs) = length (filter P ys)"
  by (metis mset_filter size_mset)

lemma aggregate_mset:
  assumes "mset g1 = mset g2"
  shows "aggregate g1 = aggregate g2"
proof -
  have s: "set g1 = set g2" using assms by (rule mset_eq_setD)
  have l: "length g1 = length g2" using assms by (rule mset_eq_length)
  have e: "set (map eta_dt g1) = set (map eta_dt g2)" using s by simp
  have a: "set (map ata_dt g1) = set (map ata_dt g2)" using s by simp
  show ?thesis
    unfolding aggregate_def Let_def
    using l length_filter_mset [OF assms]
      ts_min_cong_set [OF e] ts_max_cong_set [OF e]
      ts_min_cong_set [OF a] ts_max_cong_set [OF a]
    by simp
qed

lemma bol_spread_mset:
  assumes "mset cs = mset cs'"
  shows "bol_spread cs = bol_spread cs'"
proof -
  have s: "set cs = set cs'" using assms by (rule mset_eq_setD)
  have k: "sort (remdups (map bol_id cs)) = sort (remdups (map bol_id cs'))"
    using s by (metis sorted_list_of_set_sort_remdups set_map)
  have g: "aggregate (filter P cs) = aggregate (filter P cs')" for P
    by (rule aggregate_mset) (simp add: assms)
  show ?thesis
    by (simp add: bol_spread_def groupby_bol_id_def k g comp_def)
qed

subsection \<open>Presence counts\<close>

lemma aggregate_counts:
  "n_eta_present (aggregate grp) + n_eta_missing (aggregate grp) = n_containers (aggregate grp)"
  "n_ata_present (aggregate grp) + n_ata_missing (aggregate grp) = n_containers (aggregate grp)"
  using sum_length_filter_compl [of "\<lambda>r. strip (eta r) \<noteq> []" grp]
    sum_length_filter_compl [of "\<lambda>r. strip (ata r) \<noteq> []" grp]
  by (simp_all add: aggregate_def Let_def)

lemma aggregate_presence_counts:
  "n_containers (aggregate grp) = length grp"
  "n_eta_present (aggregate grp) = length (filter (\<lambda>r. strip (eta r) \<noteq> []) grp)"
  "n_eta_missing (aggregate grp) = length (filter (\<lambda>r. strip (eta r) = []) grp)"
  "n_ata_present (aggregate grp) = length (filter (\<lambda>r. strip (ata r) \<noteq> []) grp)"
  "n_ata_missing (aggregate grp) = length (filter (\<lambda>r. strip (ata r) = []) grp)"
  by (simp_all add: aggregate_def Let_def)

lemma presence_independent:
  "map presence_view (bol_spread (map (\<lambda>r. r\<lparr>eta_dt := e r, ata_dt := t r\<rparr>) cs))
   = map presence_view (bol_spread cs)"
  by (simp add: bol_spread_def groupby_bol_id_def comp_def presence_view_def
      aggregate_presence_counts filter_map)

subsection \<open>Rows without a parsed timestamp\<close>

lemma dropna_append: "dropna (xs @ ys) = dropna xs @ dropna ys"
  by (induction xs) (auto split: option.splits)

lemma ts_min_skip_None: "ts_min (xs @ None # ys) = ts_min (xs @ ys)"
  by (simp add: ts_min_def dropna_append)

lemma ts_max_skip_None: "ts_max (xs @ None # ys) = ts_max (xs @ ys)"
  by (simp add: ts_max_def dropna_append)

lemma aggregate_eta_unparsed:
  assumes "eta_dt r = None"
  shows "eta_min (aggregate (xs @ r # ys)) = eta_min (aggregate (xs @ ys))"
    and "eta_max (aggregate (xs @ r # ys)) = eta_max (aggregate (xs @ ys))"
    and "eta_spread_hours (aggregate (xs @ r # ys)) = eta_spread_hours (aggregate (xs @ ys))"
    and "eta_spread_bucket (aggregate (xs @ r # ys)) = eta_spread_bucket (aggregate (xs @ ys))"
  using assms by (simp_all add: aggregate_def Let_def ts_min_skip_None ts_max_skip_None)

lemma aggregate_ata_unparsed:
  assumes "ata_dt r = None"
  shows "ata_min (aggregate (xs @ r # ys)) = ata_min (aggregate (xs @ ys))"
    and "ata_max (aggregate (xs @ r # ys)) = ata_max (aggregate (xs @ ys))"
    and "ata_spread_hours (aggregate (xs @ r # ys)) = ata_spread_hours (aggregate (xs @ ys))"
    and "ata_spread_bucket (aggregate (xs @ r # ys)) = ata_spread_bucket (aggregate (xs @ ys))"
  using assms by (simp_all add: aggregate_def Let_def ts_min_skip_None ts_max_skip_None)




subsection \<open>The mixed-presence detail\<close>

lemma bol_id_truncate: "bol_id (row.truncate r) = bol_id r"
  by (simp add: row.truncate_def)

lemma mixed_ata_bols_iff:
  "b \<in> set (mixed_ata_bols bs) \<longleftrightarrow> (\<exists>a. (b, a) \<in> set bs \<and> 0 < n_ata_present a \<and> 0 < n_ata_missing a)"
  by (force simp: mixed_ata_bols_def)

lemma detail_eq:
  "bol_mixed_ata_presence_detail cs =
     map row.truncate (filter (\<lambda>r. \<exists>a. (bol_id r, a) \<in> set (bol_spread cs)
        \<and> 0 < n_ata_present a \<and> 0 < n_ata_missing a) cs)"
  by (simp add: bol_mixed_ata_presence_detail_def mixed_ata_bols_iff)

lemma detail_bols:
  "bol_id ` set (bol_mixed_ata_presence_detail cs) = set (mixed_ata_bols (bol_spread cs))"
proof -
  have "b \<in> bol_id ` set cs" if "b \<in> set (mixed_ata_bols (bol_spread cs))" for b
    using that by (auto simp: mixed_ata_bols_iff bol_spread_iff)
  then have "set (mixed_ata_bols (bol_spread cs))
      \<subseteq> bol_id ` {r \<in> set cs. bol_id r \<in> set (mixed_ata_bols (bol_spread cs))}"
    by force
  moreover have "bol_id ` set (bol_mixed_ata_presence_detail cs)
      = bol_id ` {r \<in> set cs. bol_id r \<in> set (mixed_ata_bols (bol_spread cs))}"
    by (simp add: bol_mixed_ata_presence_detail_def image_image bol_id_truncate)
  ultimately show ?thesis by auto
qed

lemma detail_group:
  assumes "b \<in> set (mixed_ata_bols (bol_spread cs))"
  shows "filter (\<lambda>r. bol_id r = b) (bol_mixed_ata_presence_detail cs)
         = map row.truncate (filter (\<lambda>r. bol_id r = b) cs)"
proof -
  have "filter (\<lambda>r. bol_id r = b) (bol_mixed_ata_presence_detail cs)
        = map row.truncate (filter (\<lambda>r. bol_id r = b \<and> bol_id r \<in> set (mixed_ata_bols (bol_spread cs))) cs)"
    by (simp add: bol_mixed_ata_presence_detail_def filter_map comp_def bol_id_truncate conj_commute)
  also have "filter (\<lambda>r. bol_id r = b \<and> bol_id r \<in> set (mixed_ata_bols (bol_spread cs))) cs
        = filter (\<lambda>r. bol_id r = b) cs"
    using assms by (intro filter_cong) auto
  finally show ?thesis .
qed

lemma detail_subseq: "subseq (bol_mixed_ata_presence_detail cs) (map row.truncate cs)"
  by (simp add: bol_mixed_ata_presence_detail_def subseq_map)

subsection \<open>Value counts and the summary rows\<close>

lemma mset_value_counts:
  "mset (value_counts xs) = mset (map (\<lambda>b. (b, count_list xs b)) (rev (remdups (rev xs))))"
  by (simp add: value_counts_def)

lemma set_value_counts: "set (value_counts xs) = (\<lambda>b. (b, count_list xs b)) ` set xs"
proof -
  have "set (value_counts xs) = set_mset (mset (value_counts xs))" by simp
  also have "\<dots> = (\<lambda>b. (b, count_list xs b)) ` set xs"
    unfolding mset_value_counts by simp
  finally show ?thesis .
qed

lemma set_fst_value_counts: "set (map fst (value_counts xs)) = set xs"
  by (simp add: set_value_counts image_image)

lemma distinct_value_counts: "distinct (map fst (value_counts xs))"
proof -
  have "mset (map fst (value_counts xs)) = mset (rev (remdups (rev xs)))"
    using mset_value_counts [of xs] by (metis (no_types, lifting) mset_map map_map comp_def fst_conv map_idI)
  moreover have "distinct (rev (remdups (rev xs)))" by simp
  ultimately show ?thesis by (metis mset_eq_imp_distinct_iff)
qed

lemma sum_list_value_counts: "sum_list (map snd (value_counts xs)) = length xs"
proof -
  have "sum_list (map snd (value_counts xs)) = sum_mset (image_mset snd (mset (value_counts xs)))"
    by (metis mset_map sum_mset_sum_list)
  also have "\<dots> = sum_mset (mset (map (count_list xs) (rev (remdups (rev xs)))))"
    unfolding mset_value_counts by (simp add: comp_def image_mset.compositionality)
  also have "\<dots> = sum_list (map (count_list xs) (rev (remdups (rev xs))))"
    by (rule sum_mset_sum_list)
  also have "\<dots> = sum (count_list xs) (set (rev (remdups (rev xs))))"
    by (rule sum_list_distinct_conv_sum_set) simp
  also have "\<dots> = length xs"
    by (simp add: sum_count_set)
  finally show ?thesis .
qed

lemma metric_rows_props:
  "map bucket (metric_rows m xs) = map fst (value_counts xs)"
  "map count (metric_rows m xs) = map snd (value_counts xs)"
  "\<forall>r \<in> set (metric_rows m xs). metric r = m"
  by (auto simp: metric_rows_def split_def comp_def)

lemma filter_metric_rows:
  "filter (\<lambda>r. metric r = m') (metric_rows m xs) = (if m = m' then metric_rows m xs else [])"
  using metric_rows_props(3) [of m xs] by (auto simp: filter_empty_conv)

lemma filter_summary_df:
  "filter (\<lambda>r. metric r = ''ETA'') (summary_df bs) = metric_rows ''ETA'' (map (\<lambda>(k, a). eta_spread_bucket a) bs)"
  "filter (\<lambda>r. metric r = ''ATA'') (summary_df bs) = metric_rows ''ATA'' (map (\<lambda>(k, a). ata_spread_bucket a) bs)"
  "filter (\<lambda>r. metric r = ''ATA_MIXED_PRESENCE'') (summary_df bs) = [mixed_row bs]"
  by (simp_all add: summary_df_def filter_metric_rows mixed_row_def)

lemma metric_rows_count:
  assumes "r \<in> set (metric_rows m xs)"
  shows "count r = count_list xs (bucket r) \<and> 0 < count r \<and> bucket r \<in> set xs \<and> description r = describe (bucket r)"
proof -
  from assms obtain b c where bc: "(b, c) \<in> set (value_counts xs)"
    and r: "r = \<lparr> metric = m, bucket = b, description = describe b, count = c \<rparr>"
    by (auto simp: metric_rows_def)
  from bc have "b \<in> set xs" "c = count_list xs b" by (auto simp: set_value_counts)
  moreover from this have "0 < count_list xs b" by (metis count_list_0_iff not_gr_zero)
  ultimately show ?thesis using r by simp
qed

lemma length_bol_spread: "length (bol_spread cs) = card (bol_id ` set cs)"
proof -
  have "length (bol_spread cs) = length (map fst (bol_spread cs))" by simp
  also have "\<dots> = card (set (map bol_id cs))"
    unfolding map_fst_bol_spread by (simp add: length_remdups_card_conv)
  finally show ?thesis by simp
qed

subsection \<open>Trimming and the container filter\<close>

lemma strip_decomp:
  "\<exists>pre post. s = pre @ strip s @ post \<and> (\<forall>c \<in> set pre. isspace c) \<and> (\<forall>c \<in> set post. isspace c)"
proof -
  let ?t = "dropWhile isspace s"
  let ?pre = "takeWhile isspace s"
  let ?post = "rev (takeWhile isspace (rev ?t))"
  have t: "?t = strip s @ ?post"
    unfolding strip_def by (metis rev_append rev_rev_ident takeWhile_dropWhile_id)
  have "s = ?pre @ ?t" by simp
  then have "s = ?pre @ strip s @ ?post" using t by simp
  moreover have "\<forall>c \<in> set ?pre. isspace c" by (auto dest: set_takeWhileD)
  moreover have "\<forall>c \<in> set ?post. isspace c" by (auto dest: set_takeWhileD)
  ultimately show ?thesis by blast
qed

lemma strip_core:
  assumes "\<forall>c \<in> set pre. isspace c" "\<forall>c \<in> set post. isspace c"
    and "core \<noteq> []" "\<not> isspace (hd core)" "\<not> isspace (last core)"
  shows "strip (pre @ core @ post) = core"
proof -
  obtain x xs where c1: "core = x # xs" using assms(3) by (cases core) auto
  obtain ys y where c2: "core = ys @ [y]" using assms(3) by (cases core rule: rev_cases) auto
  have x: "\<not> isspace x" using assms(4) c1 by simp
  have y: "\<not> isspace y" using assms(5) c2 by simp
  have "dropWhile isspace (pre @ core @ post) = dropWhile isspace (core @ post)"
    using assms(1) by (simp add: dropWhile_append2)
  also have "\<dots> = core @ post" using x c1 by simp
  finally have d: "dropWhile isspace (pre @ core @ post) = core @ post" .
  have "dropWhile isspace (rev (core @ post)) = dropWhile isspace (rev post @ rev core)" by simp
  also have "\<dots> = dropWhile isspace (rev core)"
    by (rule dropWhile_append2) (use assms(2) in simp)
  also have "\<dots> = rev core" using y c2 by simp
  finally show ?thesis by (simp add: strip_def d)
qed

lemma isspace_upper_char:
  assumes "isspace c"
  shows "upper_char c = c"
proof -
  from assms have "c = CHR 0x09 \<or> c = CHR 0x0A \<or> c = CHR 0x0B \<or> c = CHR 0x0C
    \<or> c = CHR 0x0D \<or> c = CHR 0x1C \<or> c = CHR 0x1D \<or> c = CHR 0x1E \<or> c = CHR 0x1F
    \<or> c = CHR 0x20"
    by (simp add: isspace_def)
  then show ?thesis by (elim disjE) (simp_all add: upper_char_def)
qed

lemma upper_hd_last:
  assumes "upper core = u" "u \<noteq> []" "\<not> isspace (hd u)" "\<not> isspace (last u)"
  shows "core \<noteq> [] \<and> \<not> isspace (hd core) \<and> \<not> isspace (last core)"
proof -
  have ne: "core \<noteq> []" using assms(1,2) by (auto simp: upper_def)
  have "hd u = upper_char (hd core)" using assms(1) ne by (auto simp: upper_def hd_map)
  then have h: "\<not> isspace (hd core)" using assms(3) isspace_upper_char by metis
  have "last u = upper_char (last core)" using assms(1) ne by (auto simp: upper_def last_map)
  then have l: "\<not> isspace (last core)" using assms(4) isspace_upper_char by metis
  show ?thesis using ne h l by simp
qed

lemma is_container_iff:
  "is_container s \<longleftrightarrow>
     (\<exists>pre core post. s = pre @ core @ post
        \<and> (\<forall>c \<in> set pre. isspace c) \<and> (\<forall>c \<in> set post. isspace c)
        \<and> (upper core = ''CONTAINER'' \<or> upper core = ''CONTAINER_ID''))"
proof
  assume "is_container s"
  then have "upper (strip s) = ''CONTAINER'' \<or> upper (strip s) = ''CONTAINER_ID''"
    by (simp add: is_container_def)
  then show "\<exists>pre core post. s = pre @ core @ post
        \<and> (\<forall>c \<in> set pre. isspace c) \<and> (\<forall>c \<in> set post. isspace c)
        \<and> (upper core = ''CONTAINER'' \<or> upper core = ''CONTAINER_ID'')"
    using strip_decomp [of s] by blast
next
  assume "\<exists>pre core post. s = pre @ core @ post
        \<and> (\<forall>c \<in> set pre. isspace c) \<and> (\<forall>c \<in> set post. isspace c)
        \<and> (upper core = ''CONTAINER'' \<or> upper core = ''CONTAINER_ID'')"
  then obtain pre core post where s: "s = pre @ core @ post"
    and pre: "\<forall>c \<in> set pre. isspace c" and post: "\<forall>c \<in> set post. isspace c"
    and u: "upper core = ''CONTAINER'' \<or> upper core = ''CONTAINER_ID''" by blast
  have "core \<noteq> [] \<and> \<not> isspace (hd core) \<and> \<not> isspace (last core)"
    using u
  proof
    assume "upper core = ''CONTAINER''"
    then show ?thesis by (rule upper_hd_last) (simp_all add: isspace_def)
  next
    assume "upper core = ''CONTAINER_ID''"
    then show ?thesis by (rule upper_hd_last) (simp_all add: isspace_def)
  qed
  then have "strip s = core" unfolding s using pre post by (intro strip_core) simp_all
  then show "is_container s" using u by (simp add: is_container_def)
qed

lemma containers_drop_row:
  "\<not> is_container (shipment_type r) \<Longrightarrow> containers g (xs @ r # ys) = containers g (xs @ ys)"
  by (simp add: containers_def)

lemma containers_filter:
  "containers g (filter (\<lambda>r. is_container (shipment_type r)) work_df) = containers g work_df"
  by (simp add: containers_def)

lemma run_cong: "containers g t1 = containers g t2 \<Longrightarrow> run g t1 = run g t2"
  by (simp add: run_def)

lemma containers_parsed:
  "\<forall>c \<in> set (containers g work_df).
     eta_dt c = to_datetime g (eta c) \<and> ata_dt c = to_datetime g (ata c)
     \<and> is_container (shipment_type c)"
  by (auto simp: containers_def parse_row_def row.extend_def)


subsection \<open>The summary of the sample table\<close>

lemma buckets_sample:
  "eta_spread_bucket (aggregate [c3]) = ''NO_VALID_TIMESTAMP''
   \<and> ata_spread_bucket (aggregate [c3]) = ''NO_VALID_TIMESTAMP''
   \<and> eta_spread_bucket (aggregate [c1, c2, c4]) = ''BETWEEN_1_AND_24_HOURS''
   \<and> ata_spread_bucket (aggregate [c1, c2, c4]) = ''NO_DIFFERENCE''"
  by (simp add: aggregate_def Let_def ts_min_def ts_max_def spread_hours_def
      c1_def c2_def c3_def c4_def)

lemma mixed_sample: "mixed_ata_bols (bol_spread [c1, c2, c3, c4]) = [''B3'']"
  unfolding bol_spread_sample
  by (simp add: mixed_ata_bols_def aggregate_presence_counts strip_def isspace_def
      c1_def c2_def c3_def c4_def)

lemma summary_sample:
  "summary_df (bol_spread [c1, c2, c3, c4]) =
     [\<lparr> metric = ''ETA'', bucket = ''NO_VALID_TIMESTAMP'',
        description = describe ''NO_VALID_TIMESTAMP'', count = 1 \<rparr>,
      \<lparr> metric = ''ETA'', bucket = ''BETWEEN_1_AND_24_HOURS'',
        description = describe ''BETWEEN_1_AND_24_HOURS'', count = 1 \<rparr>,
      \<lparr> metric = ''ATA'', bucket = ''NO_VALID_TIMESTAMP'',
        description = describe ''NO_VALID_TIMESTAMP'', count = 1 \<rparr>,
      \<lparr> metric = ''ATA'', bucket = ''NO_DIFFERENCE'',
        description = describe ''NO_DIFFERENCE'', count = 1 \<rparr>,
      \<lparr> metric = ''ATA_MIXED_PRESENCE'', bucket = ''MIXED_PRESENT_AND_MISSING'',
        description = describe ''MIXED_PRESENT_AND_MISSING'', count = 1 \<rparr>]"
  unfolding summary_df_def mixed_row_def mixed_sample
  unfolding bol_spread_sample
  by (simp add: buckets_sample metric_rows_def value_counts_def)

section \<open>The spread classifier\<close>

text \<open>
  C1. The classifier sends \<^verbatim>\<open>None\<close> (and \<^verbatim>\<open>NaN\<close>) to \<^verbatim>\<open>NO_VALID_TIMESTAMP\<close>, a spread of
  0 to \<^verbatim>\<open>NO_DIFFERENCE\<close>, a spread in (0, 24] (24.0 included) to
  \<^verbatim>\<open>BETWEEN_1_AND_24_HOURS\<close> and a spread above 24 (24.0000001 included) to
  \<^verbatim>\<open>MORE_THAN_24_HOURS\<close>; every input gets one of these four labels, there is no fifth.
\<close>

theorem classify_spread_hours_rules:
  "classify_spread_hours PyNone = ''NO_VALID_TIMESTAMP''
   \<and> classify_spread_hours NaN = ''NO_VALID_TIMESTAMP''
   \<and> classify_spread_hours (Num 0) = ''NO_DIFFERENCE''
   \<and> (\<forall>v. 0 < v \<and> v \<le> 24 \<longrightarrow> classify_spread_hours (Num v) = ''BETWEEN_1_AND_24_HOURS'')
   \<and> classify_spread_hours (Num 24) = ''BETWEEN_1_AND_24_HOURS''
   \<and> (\<forall>v. 24 < v \<longrightarrow> classify_spread_hours (Num v) = ''MORE_THAN_24_HOURS'')
   \<and> classify_spread_hours (Num (240000001 / 10000000)) = ''MORE_THAN_24_HOURS''
   \<and> (\<forall>x. classify_spread_hours x \<in> set [''NO_VALID_TIMESTAMP'', ''NO_DIFFERENCE'',
            ''BETWEEN_1_AND_24_HOURS'', ''MORE_THAN_24_HOURS''])"
proof -
  have total: "classify_spread_hours x \<in> set [''NO_VALID_TIMESTAMP'', ''NO_DIFFERENCE'',
            ''BETWEEN_1_AND_24_HOURS'', ''MORE_THAN_24_HOURS'']" for x
    by (cases x) simp_all
  show ?thesis using total by simp
qed

theorem classify_spread_hours_rules_witness:
  "(0::real) < 12 \<and> (12::real) \<le> 24 \<and> (24::real) < 30
   \<and> classify_spread_hours (Num 12) = ''BETWEEN_1_AND_24_HOURS''
   \<and> classify_spread_hours (Num 30) = ''MORE_THAN_24_HOURS''"
proof -
  have a: "classify_spread_hours (Num 12) = ''BETWEEN_1_AND_24_HOURS''"
    using classify_spread_hours_rules by (elim conjE allE [of _ "12::real"]) simp
  have b: "classify_spread_hours (Num 30) = ''MORE_THAN_24_HOURS''"
    using classify_spread_hours_rules by (elim conjE allE [of _ "30::real"]) simp
  show ?thesis using a b by simp
qed

text \<open>
  C10. A negative spread falls through every test to the final \<^verbatim>\<open>return\<close>: the
  classifier answers \<^verbatim>\<open>MORE_THAN_24_HOURS\<close>, with no rejection and no label of its own.
\<close>

theorem classify_spread_hours_negative:
  "v < 0 \<Longrightarrow> classify_spread_hours (Num v) = ''MORE_THAN_24_HOURS''"
  by simp

theorem classify_spread_hours_negative_witness:
  "(-1::real) < 0 \<and> classify_spread_hours (Num (-1)) = ''MORE_THAN_24_HOURS''"
  using classify_spread_hours_negative [of "-1"] by simp

section \<open>The BOL aggregator\<close>

text \<open>
  C3. In every aggregate of \<^verbatim>\<open>bol_spread\<close> the ETA present and missing counts add up to
  \<^verbatim>\<open>n_containers\<close>, and so do the ATA present and missing counts.
\<close>

theorem presence_counts_partition:
  "\<forall>(k, a) \<in> set (bol_spread cs).
      n_eta_present a + n_eta_missing a = n_containers a
    \<and> n_ata_present a + n_ata_missing a = n_containers a"
proof (clarify, intro conjI)
  fix k a assume "(k, a) \<in> set (bol_spread cs)"
  then have a: "a = aggregate (filter (\<lambda>r. bol_id r = k) cs)" by (simp add: bol_spread_iff)
  show "n_eta_present a + n_eta_missing a = n_containers a" unfolding a by (rule aggregate_counts)
  show "n_ata_present a + n_ata_missing a = n_containers a" unfolding a by (rule aggregate_counts)
qed

theorem presence_counts_partition_witness:
  "(''B3'', aggregate [c1, c2, c4]) \<in> set (bol_spread [c1, c2, c3, c4])
   \<and> n_containers (aggregate [c1, c2, c4]) = 3
   \<and> n_eta_present (aggregate [c1, c2, c4]) + n_eta_missing (aggregate [c1, c2, c4]) = 3
   \<and> n_ata_present (aggregate [c1, c2, c4]) + n_ata_missing (aggregate [c1, c2, c4]) = 3"
proof -
  have m: "(''B3'', aggregate [c1, c2, c4]) \<in> set (bol_spread [c1, c2, c3, c4])"
    by (simp add: bol_spread_sample)
  have n: "n_containers (aggregate [c1, c2, c4]) = 3"
    by (simp add: aggregate_def Let_def)
  show ?thesis using m n presence_counts_partition [of "[c1, c2, c3, c4]"] by fastforce
qed

text \<open>
  C5. The aggregator gives the same table of aggregates (groups, counts, minima and
  maxima, spreads, buckets) for every permutation of the container rows.
\<close>

theorem bol_spread_permutation:
  "mset cs = mset cs' \<Longrightarrow> bol_spread cs = bol_spread cs'"
  by (rule bol_spread_mset)

theorem bol_spread_permutation_witness:
  "mset [c1, c2, c3, c4] = mset [c4, c3, c2, c1]
   \<and> bol_spread [c1, c2, c3, c4] = bol_spread [c4, c3, c2, c1]"
proof -
  have p: "mset [c1, c2, c3, c4] = mset [c4, c3, c2, c1]" by simp
  show ?thesis using p bol_spread_permutation [OF p] by simp
qed

text \<open>
  C4. The presence counts of a BOL group count the rows of the group whose trimmed raw
  string is non-empty (present) or empty (missing); they do not change when the parsed
  columns are replaced by anything else. A row whose raw string is non-empty but has no
  parsed timestamp adds one to the present count, nothing to the missing count, and
  leaves the group's minimum and maximum as they are without it.
\<close>

theorem presence_counts_from_raw_strings:
  "(\<forall>(k, a) \<in> set (bol_spread cs).
       n_eta_present a = length (filter (\<lambda>r. bol_id r = k \<and> strip (eta r) \<noteq> []) cs)
     \<and> n_eta_missing a = length (filter (\<lambda>r. bol_id r = k \<and> strip (eta r) = []) cs)
     \<and> n_ata_present a = length (filter (\<lambda>r. bol_id r = k \<and> strip (ata r) \<noteq> []) cs)
     \<and> n_ata_missing a = length (filter (\<lambda>r. bol_id r = k \<and> strip (ata r) = []) cs))
   \<and> map presence_view (bol_spread (map (\<lambda>r. r\<lparr>eta_dt := e r, ata_dt := t r\<rparr>) cs))
       = map presence_view (bol_spread cs)
   \<and> (strip (eta r) \<noteq> [] \<and> eta_dt r = None \<longrightarrow>
        n_eta_present (aggregate (xs @ r # ys)) = Suc (n_eta_present (aggregate (xs @ ys)))
      \<and> n_eta_missing (aggregate (xs @ r # ys)) = n_eta_missing (aggregate (xs @ ys))
      \<and> eta_min (aggregate (xs @ r # ys)) = eta_min (aggregate (xs @ ys))
      \<and> eta_max (aggregate (xs @ r # ys)) = eta_max (aggregate (xs @ ys)))
   \<and> (strip (ata r) \<noteq> [] \<and> ata_dt r = None \<longrightarrow>
        n_ata_present (aggregate (xs @ r # ys)) = Suc (n_ata_present (aggregate (xs @ ys)))
      \<and> n_ata_missing (aggregate (xs @ r # ys)) = n_ata_missing (aggregate (xs @ ys))
      \<and> ata_min (aggregate (xs @ r # ys)) = ata_min (aggregate (xs @ ys))
      \<and> ata_max (aggregate (xs @ r # ys)) = ata_max (aggregate (xs @ ys)))"
proof (intro conjI)
  show "\<forall>(k, a) \<in> set (bol_spread cs).
       n_eta_present a = length (filter (\<lambda>r. bol_id r = k \<and> strip (eta r) \<noteq> []) cs)
     \<and> n_eta_missing a = length (filter (\<lambda>r. bol_id r = k \<and> strip (eta r) = []) cs)
     \<and> n_ata_present a = length (filter (\<lambda>r. bol_id r = k \<and> strip (ata r) \<noteq> []) cs)
     \<and> n_ata_missing a = length (filter (\<lambda>r. bol_id r = k \<and> strip (ata r) = []) cs)"
    by (auto simp: bol_spread_iff aggregate_presence_counts conj_commute)
  show "map presence_view (bol_spread (map (\<lambda>r. r\<lparr>eta_dt := e r, ata_dt := t r\<rparr>) cs))
       = map presence_view (bol_spread cs)"
    by (rule presence_independent)
  show "strip (eta r) \<noteq> [] \<and> eta_dt r = None \<longrightarrow>
        n_eta_present (aggregate (xs @ r # ys)) = Suc (n_eta_present (aggregate (xs @ ys)))
      \<and> n_eta_missing (aggregate (xs @ r # ys)) = n_eta_missing (aggregate (xs @ ys))
      \<and> eta_min (aggregate (xs @ r # ys)) = eta_min (aggregate (xs @ ys))
      \<and> eta_max (aggregate (xs @ r # ys)) = eta_max (aggregate (xs @ ys))"
    by (simp add: aggregate_presence_counts aggregate_eta_unparsed)
  show "strip (ata r) \<noteq> [] \<and> ata_dt r = None \<longrightarrow>
        n_ata_present (aggregate (xs @ r # ys)) = Suc (n_ata_present (aggregate (xs @ ys)))
      \<and> n_ata_missing (aggregate (xs @ r # ys)) = n_ata_missing (aggregate (xs @ ys))
      \<and> ata_min (aggregate (xs @ r # ys)) = ata_min (aggregate (xs @ ys))
      \<and> ata_max (aggregate (xs @ r # ys)) = ata_max (aggregate (xs @ ys))"
    by (simp add: aggregate_presence_counts aggregate_ata_unparsed)
qed

theorem presence_counts_from_raw_strings_witness:
  "(''B3'', aggregate [c1, c2, c4]) \<in> set (bol_spread [c1, c2, c3, c4])
   \<and> strip (eta c4) \<noteq> [] \<and> eta_dt c4 = None \<and> strip (ata c4) \<noteq> [] \<and> ata_dt c4 = None
   \<and> n_eta_present (aggregate [c1, c2, c4]) = 3
   \<and> n_ata_present (aggregate [c1, c2, c4]) = 2
   \<and> n_ata_missing (aggregate [c1, c2, c4]) = 1
   \<and> n_eta_present (aggregate [c1, c4, c2]) = Suc (n_eta_present (aggregate [c1, c2]))
   \<and> eta_min (aggregate [c1, c4, c2]) = eta_min (aggregate [c1, c2])
   \<and> eta_max (aggregate [c1, c4, c2]) = eta_max (aggregate [c1, c2])
   \<and> n_ata_present (aggregate [c1, c4, c2]) = Suc (n_ata_present (aggregate [c1, c2]))
   \<and> ata_min (aggregate [c1, c4, c2]) = ata_min (aggregate [c1, c2])
   \<and> ata_max (aggregate [c1, c4, c2]) = ata_max (aggregate [c1, c2])"
proof -
  have m: "(''B3'', aggregate [c1, c2, c4]) \<in> set (bol_spread [c1, c2, c3, c4])"
    by (simp add: bol_spread_sample)
  have h: "strip (eta c4) \<noteq> [] \<and> eta_dt c4 = None \<and> strip (ata c4) \<noteq> [] \<and> ata_dt c4 = None"
    by (simp add: c4_def strip_def isspace_def)
  have f: "length (filter (\<lambda>r. bol_id r = ''B3'' \<and> strip (eta r) \<noteq> []) [c1, c2, c3, c4]) = 3
     \<and> length (filter (\<lambda>r. bol_id r = ''B3'' \<and> strip (ata r) \<noteq> []) [c1, c2, c3, c4]) = 2
     \<and> length (filter (\<lambda>r. bol_id r = ''B3'' \<and> strip (ata r) = []) [c1, c2, c3, c4]) = 1"
    by (simp add: c1_def c2_def c3_def c4_def strip_def isspace_def)
  show ?thesis
    using m h f
      presence_counts_from_raw_strings [of "[c1, c2, c3, c4]" eta_dt ata_dt c4 "[c1]" "[c2]"]
    by fastforce
qed

section \<open>The mixed-presence detector\<close>

text \<open>
  C2. A BOL occurs in \<^verbatim>\<open>bol_mixed_ata_presence_detail\<close> if and only if its aggregate has
  \<^verbatim>\<open>n_ata_present > 0\<close> and \<^verbatim>\<open>n_ata_missing > 0\<close>; for such a BOL the detail rows are
  exactly the container rows with that \<^verbatim>\<open>bol_id\<close>, in input order (the whole detail is
  a subsequence of the container rows); and when no BOL qualifies the detail is empty.
\<close>

theorem mixed_presence_detail_correct:
  "(\<forall>b. b \<in> bol_id ` set (bol_mixed_ata_presence_detail cs) \<longleftrightarrow>
        (\<exists>a. (b, a) \<in> set (bol_spread cs) \<and> 0 < n_ata_present a \<and> 0 < n_ata_missing a))
   \<and> (\<forall>b \<in> bol_id ` set (bol_mixed_ata_presence_detail cs).
        filter (\<lambda>r. bol_id r = b) (bol_mixed_ata_presence_detail cs)
        = map row.truncate (filter (\<lambda>r. bol_id r = b) cs))
   \<and> subseq (bol_mixed_ata_presence_detail cs) (map row.truncate cs)
   \<and> ((\<forall>(b, a) \<in> set (bol_spread cs). \<not> (0 < n_ata_present a \<and> 0 < n_ata_missing a))
        \<longrightarrow> bol_mixed_ata_presence_detail cs = [])"
proof (intro conjI)
  show "\<forall>b. b \<in> bol_id ` set (bol_mixed_ata_presence_detail cs) \<longleftrightarrow>
        (\<exists>a. (b, a) \<in> set (bol_spread cs) \<and> 0 < n_ata_present a \<and> 0 < n_ata_missing a)"
    by (simp add: detail_bols mixed_ata_bols_iff)
  show "\<forall>b \<in> bol_id ` set (bol_mixed_ata_presence_detail cs).
        filter (\<lambda>r. bol_id r = b) (bol_mixed_ata_presence_detail cs)
        = map row.truncate (filter (\<lambda>r. bol_id r = b) cs)"
    unfolding detail_bols by (intro ballI detail_group)
  show "subseq (bol_mixed_ata_presence_detail cs) (map row.truncate cs)"
    by (rule detail_subseq)
  show "(\<forall>(b, a) \<in> set (bol_spread cs). \<not> (0 < n_ata_present a \<and> 0 < n_ata_missing a))
        \<longrightarrow> bol_mixed_ata_presence_detail cs = []"
    unfolding detail_eq by (auto simp: filter_empty_conv)
qed

theorem mixed_presence_detail_correct_witness:
  "''B3'' \<in> bol_id ` set (bol_mixed_ata_presence_detail [c1, c2, c3, c4])
   \<and> filter (\<lambda>r. bol_id r = ''B3'') (bol_mixed_ata_presence_detail [c1, c2, c3, c4])
       = map row.truncate [c1, c2, c4]
   \<and> bol_spread [c3] = [(''B2'', aggregate [c3])]
   \<and> n_ata_present (aggregate [c3]) = 0
   \<and> bol_mixed_ata_presence_detail [c3] = []"
proof -
  have s: "bol_spread [c3] = [(''B2'', aggregate [c3])]"
    by (simp add: bol_spread_def groupby_bol_id_def c3_def)
  have z: "n_ata_present (aggregate [c3]) = 0"
    by (simp add: aggregate_presence_counts strip_def c3_def)
  have d: "bol_mixed_ata_presence_detail [c1, c2, c3, c4] = map row.truncate [c1, c2, c4]"
    unfolding bol_mixed_ata_presence_detail_def mixed_sample
    by (simp add: c1_def c2_def c3_def c4_def)
  have m: "''B3'' \<in> bol_id ` set (bol_mixed_ata_presence_detail [c1, c2, c3, c4])"
    unfolding d by (simp add: row.truncate_def c1_def)
  have f: "filter (\<lambda>r. bol_id r = ''B3'') [c1, c2, c3, c4] = [c1, c2, c4]"
    by (simp add: c1_def c2_def c3_def c4_def)
  have n: "\<forall>(b, a) \<in> set (bol_spread [c3]). \<not> (0 < n_ata_present a \<and> 0 < n_ata_missing a)"
    unfolding s using z by simp
  have g: "filter (\<lambda>r. bol_id r = ''B3'') (bol_mixed_ata_presence_detail [c1, c2, c3, c4])
       = map row.truncate (filter (\<lambda>r. bol_id r = ''B3'') [c1, c2, c3, c4])"
    using m mixed_presence_detail_correct [of "[c1, c2, c3, c4]"] by blast
  have e: "bol_mixed_ata_presence_detail [c3] = []"
    using n mixed_presence_detail_correct [of "[c3]"] by blast
  show ?thesis using m g s z e unfolding f by blast
qed

section \<open>The row classifier\<close>

text \<open>
  C6. A \<^verbatim>\<open>shipment_type\<close> passes the container filter if and only if it is a run of
  whitespace, a core and a run of whitespace where the uppercased core is exactly
  \<^verbatim>\<open>CONTAINER\<close> or \<^verbatim>\<open>CONTAINER_ID\<close> (that is, if and only if the trimmed, uppercased string
  is one of the two words; a longer string containing one of them does not pass). A row
  that fails the test has no effect on the container rows, hence none on the outcome of
  the run: removing it, or removing all such rows, changes nothing.
\<close>

theorem is_container_exact_match:
  "(is_container s \<longleftrightarrow> upper (strip s) = ''CONTAINER'' \<or> upper (strip s) = ''CONTAINER_ID'')
   \<and> (is_container s \<longleftrightarrow>
        (\<exists>pre core post. s = pre @ core @ post
           \<and> (\<forall>c \<in> set pre. isspace c) \<and> (\<forall>c \<in> set post. isspace c)
           \<and> (upper core = ''CONTAINER'' \<or> upper core = ''CONTAINER_ID'')))
   \<and> \<not> is_container ''CONTAINERS'' \<and> \<not> is_container ''MY CONTAINER''
   \<and> \<not> is_container ''CONTAINER ID'' \<and> \<not> is_container ''TRUCK''
   \<and> is_container ''Container''
   \<and> (\<not> is_container (shipment_type r) \<longrightarrow>
        containers g (xs @ r # ys) = containers g (xs @ ys)
        \<and> run g (xs @ r # ys) = run g (xs @ ys))
   \<and> run g (filter (\<lambda>r. is_container (shipment_type r)) work_df) = run g work_df
   \<and> (\<forall>c \<in> set (containers g work_df). is_container (shipment_type c))"
proof (intro conjI)
  show "is_container s \<longleftrightarrow> upper (strip s) = ''CONTAINER'' \<or> upper (strip s) = ''CONTAINER_ID''"
    by (simp add: is_container_def)
  show "is_container s \<longleftrightarrow>
        (\<exists>pre core post. s = pre @ core @ post
           \<and> (\<forall>c \<in> set pre. isspace c) \<and> (\<forall>c \<in> set post. isspace c)
           \<and> (upper core = ''CONTAINER'' \<or> upper core = ''CONTAINER_ID''))"
    by (rule is_container_iff)
  show "\<not> is_container ''CONTAINERS''" "\<not> is_container ''MY CONTAINER''"
    "\<not> is_container ''CONTAINER ID''" "\<not> is_container ''TRUCK''" "is_container ''Container''"
    by (simp_all add: is_container_def upper_def upper_char_def strip_def isspace_def)
  show "\<not> is_container (shipment_type r) \<longrightarrow>
        containers g (xs @ r # ys) = containers g (xs @ ys)
        \<and> run g (xs @ r # ys) = run g (xs @ ys)"
    using containers_drop_row [of r g xs ys] run_cong [of g "xs @ r # ys" "xs @ ys"] by blast
  show "run g (filter (\<lambda>r. is_container (shipment_type r)) work_df) = run g work_df"
    by (rule run_cong) (rule containers_filter)
  show "\<forall>c \<in> set (containers g work_df). is_container (shipment_type c)"
    using containers_parsed by blast
qed

theorem is_container_exact_match_witness:
  "\<not> is_container (shipment_type (sample_table ! 1))
   \<and> containers sample_grammar sample_table = [c1, c2, c3, c4]
   \<and> run sample_grammar sample_table
       = run sample_grammar (take 1 sample_table @ drop 2 sample_table)
   \<and> c2 \<in> set (containers sample_grammar sample_table)
   \<and> is_container (shipment_type c2)"
proof -
  have t: "sample_table = take 1 sample_table @ (sample_table ! 1) # drop 2 sample_table"
    by (simp add: sample_table_def)
  have n: "\<not> is_container (shipment_type (sample_table ! 1))"
    by (simp add: sample_table_def is_container_def upper_def upper_char_def strip_def
        isspace_def)
  have r: "run sample_grammar (take 1 sample_table @ (sample_table ! 1) # drop 2 sample_table)
      = run sample_grammar (take 1 sample_table @ drop 2 sample_table)"
    using n is_container_exact_match
      [of _ "sample_table ! 1" sample_grammar "take 1 sample_table" "drop 2 sample_table"]
    by blast
  have m: "c2 \<in> set (containers sample_grammar sample_table)"
    by (simp add: containers_sample)
  have c: "is_container (shipment_type c2)"
    using m is_container_exact_match [of _ _ sample_grammar _ _ sample_table] by blast
  show ?thesis using n r m c containers_sample t by metis
qed

section \<open>The timestamp normalizer\<close>



section \<open>The summary builder\<close>

text \<open>
  C8. For every table of aggregates the summary has, for ETA and independently for ATA,
  one row per bucket label that occurs among the per-BOL buckets, with the number of BOLs
  in that bucket as its count (so no row with count 0), and exactly one
  \<^verbatim>\<open>ATA_MIXED_PRESENCE\<close> / \<^verbatim>\<open>MIXED_PRESENT_AND_MISSING\<close> row, which is the last row and
  carries the number of mixed-presence BOLs, 0 included.
\<close>

theorem summary_df_rows:
  "distinct (map bucket (filter (\<lambda>r. metric r = ''ETA'') (summary_df bs)))
   \<and> set (map bucket (filter (\<lambda>r. metric r = ''ETA'') (summary_df bs)))
       = set (map (\<lambda>(k, a). eta_spread_bucket a) bs)
   \<and> (\<forall>r \<in> set (summary_df bs). metric r = ''ETA'' \<longrightarrow>
        count r = count_list (map (\<lambda>(k, a). eta_spread_bucket a) bs) (bucket r) \<and> 0 < count r)
   \<and> distinct (map bucket (filter (\<lambda>r. metric r = ''ATA'') (summary_df bs)))
   \<and> set (map bucket (filter (\<lambda>r. metric r = ''ATA'') (summary_df bs)))
       = set (map (\<lambda>(k, a). ata_spread_bucket a) bs)
   \<and> (\<forall>r \<in> set (summary_df bs). metric r = ''ATA'' \<longrightarrow>
        count r = count_list (map (\<lambda>(k, a). ata_spread_bucket a) bs) (bucket r) \<and> 0 < count r)
   \<and> (\<forall>r \<in> set (summary_df bs). metric r \<in> set [''ETA'', ''ATA'', ''ATA_MIXED_PRESENCE''])
   \<and> filter (\<lambda>r. metric r = ''ATA_MIXED_PRESENCE'') (summary_df bs) = [last (summary_df bs)]
   \<and> metric (last (summary_df bs)) = ''ATA_MIXED_PRESENCE''
   \<and> bucket (last (summary_df bs)) = ''MIXED_PRESENT_AND_MISSING''
   \<and> count (last (summary_df bs))
       = length (filter (\<lambda>(k, a). 0 < n_ata_present a \<and> 0 < n_ata_missing a) bs)
   \<and> summary_df [] =
       [\<lparr> metric = ''ATA_MIXED_PRESENCE'', bucket = ''MIXED_PRESENT_AND_MISSING'',
          description = ''BOLs where some containers have ATA and others do not'',
          count = 0 \<rparr>]"
proof -
  let ?eb = "map (\<lambda>(k, a). eta_spread_bucket a) bs"
  let ?ab = "map (\<lambda>(k, a). ata_spread_bucket a) bs"
  have mem: "set (summary_df bs)
      = set (metric_rows ''ETA'' ?eb) \<union> set (metric_rows ''ATA'' ?ab) \<union> {mixed_row bs}"
    by (auto simp: summary_df_def)
  have lst: "last (summary_df bs) = mixed_row bs" by (simp add: summary_df_def)
  have e1: "distinct (map bucket (filter (\<lambda>r. metric r = ''ETA'') (summary_df bs)))"
    by (simp add: filter_summary_df metric_rows_props distinct_value_counts)
  have e2: "set (map bucket (filter (\<lambda>r. metric r = ''ETA'') (summary_df bs))) = set ?eb"
    by (simp only: filter_summary_df metric_rows_props set_fst_value_counts)
  have e3: "\<forall>r \<in> set (summary_df bs). metric r = ''ETA'' \<longrightarrow>
        count r = count_list ?eb (bucket r) \<and> 0 < count r"
  proof (intro ballI impI)
    fix r assume "r \<in> set (summary_df bs)" "metric r = ''ETA''"
    then have "r \<in> set (filter (\<lambda>r. metric r = ''ETA'') (summary_df bs))" by simp
    then have "r \<in> set (metric_rows ''ETA'' ?eb)" by (simp only: filter_summary_df)
    then show "count r = count_list ?eb (bucket r) \<and> 0 < count r"
      using metric_rows_count by blast
  qed
  have a1: "distinct (map bucket (filter (\<lambda>r. metric r = ''ATA'') (summary_df bs)))"
    by (simp add: filter_summary_df metric_rows_props distinct_value_counts)
  have a2: "set (map bucket (filter (\<lambda>r. metric r = ''ATA'') (summary_df bs))) = set ?ab"
    by (simp only: filter_summary_df metric_rows_props set_fst_value_counts)
  have a3: "\<forall>r \<in> set (summary_df bs). metric r = ''ATA'' \<longrightarrow>
        count r = count_list ?ab (bucket r) \<and> 0 < count r"
  proof (intro ballI impI)
    fix r assume "r \<in> set (summary_df bs)" "metric r = ''ATA''"
    then have "r \<in> set (filter (\<lambda>r. metric r = ''ATA'') (summary_df bs))" by simp
    then have "r \<in> set (metric_rows ''ATA'' ?ab)" by (simp only: filter_summary_df)
    then show "count r = count_list ?ab (bucket r) \<and> 0 < count r"
      using metric_rows_count by blast
  qed
  have m1: "\<forall>r \<in> set (summary_df bs). metric r \<in> set [''ETA'', ''ATA'', ''ATA_MIXED_PRESENCE'']"
    unfolding mem
    using metric_rows_props(3) [of "''ETA''" ?eb] metric_rows_props(3) [of "''ATA''" ?ab]
    by (auto simp: mixed_row_def)
  have m2: "filter (\<lambda>r. metric r = ''ATA_MIXED_PRESENCE'') (summary_df bs)
      = [last (summary_df bs)]"
    by (simp only: filter_summary_df lst)
  have m3: "metric (last (summary_df bs)) = ''ATA_MIXED_PRESENCE''
      \<and> bucket (last (summary_df bs)) = ''MIXED_PRESENT_AND_MISSING''
      \<and> count (last (summary_df bs))
          = length (filter (\<lambda>(k, a). 0 < n_ata_present a \<and> 0 < n_ata_missing a) bs)"
    by (simp add: lst mixed_row_def mixed_ata_bols_def)
  have m4: "summary_df [] =
       [\<lparr> metric = ''ATA_MIXED_PRESENCE'', bucket = ''MIXED_PRESENT_AND_MISSING'',
          description = ''BOLs where some containers have ATA and others do not'',
          count = 0 \<rparr>]"
    by (simp add: summary_df_def metric_rows_def value_counts_def mixed_row_def
        mixed_ata_bols_def describe_def bucket_descriptions_def)
  show ?thesis using e1 e2 e3 a1 a2 a3 m1 m2 m3 m4 by blast
qed

theorem summary_df_rows_witness:
  "\<lparr> metric = ''ETA'', bucket = ''BETWEEN_1_AND_24_HOURS'',
     description = describe ''BETWEEN_1_AND_24_HOURS'', count = 1 \<rparr>
     \<in> set (summary_df (bol_spread [c1, c2, c3, c4]))
   \<and> count_list (map (\<lambda>(k, a). eta_spread_bucket a) (bol_spread [c1, c2, c3, c4]))
        ''BETWEEN_1_AND_24_HOURS'' = 1
   \<and> \<lparr> metric = ''ATA'', bucket = ''NO_DIFFERENCE'',
       description = describe ''NO_DIFFERENCE'', count = 1 \<rparr>
     \<in> set (summary_df (bol_spread [c1, c2, c3, c4]))
   \<and> count_list (map (\<lambda>(k, a). ata_spread_bucket a) (bol_spread [c1, c2, c3, c4]))
        ''NO_DIFFERENCE'' = 1
   \<and> metric (last (summary_df (bol_spread [c1, c2, c3, c4]))) = ''ATA_MIXED_PRESENCE''
   \<and> count (last (summary_df (bol_spread [c1, c2, c3, c4]))) = 1"
proof -
  let ?bs = "bol_spread [c1, c2, c3, c4]"
  let ?e = "\<lparr> metric = ''ETA'', bucket = ''BETWEEN_1_AND_24_HOURS'',
     description = describe ''BETWEEN_1_AND_24_HOURS'', count = 1 \<rparr>"
  let ?a = "\<lparr> metric = ''ATA'', bucket = ''NO_DIFFERENCE'',
       description = describe ''NO_DIFFERENCE'', count = 1 \<rparr>"
  note inst = summary_df_rows [of ?bs]
  have me: "?e \<in> set (summary_df ?bs)" by (simp add: summary_sample)
  have ma: "?a \<in> set (summary_df ?bs)" by (simp add: summary_sample)
  have ce: "count ?e = count_list (map (\<lambda>(k, a). eta_spread_bucket a) ?bs) (bucket ?e)"
    using me inst by (metis (no_types, lifting) summary_row.select_convs(1))
  have ca: "count ?a = count_list (map (\<lambda>(k, a). ata_spread_bucket a) ?bs) (bucket ?a)"
    using ma inst by (metis (no_types, lifting) summary_row.select_convs(1))
  have l: "metric (last (summary_df ?bs)) = ''ATA_MIXED_PRESENCE''" using inst by blast
  have c: "count (last (summary_df ?bs)) = 1" by (simp add: summary_sample)
  show ?thesis using me ma ce ca l c by simp
qed

text \<open>
  C9. The counts of the ETA rows of the summary add up to the number of distinct
  \<^verbatim>\<open>bol_id\<close> values among the container rows, and so do the counts of the ATA rows.
\<close>

theorem summary_totals:
  "sum_list (map count (filter (\<lambda>r. metric r = ''ETA'') (summary_df (bol_spread cs))))
     = card (bol_id ` set cs)
   \<and> sum_list (map count (filter (\<lambda>r. metric r = ''ATA'') (summary_df (bol_spread cs))))
     = card (bol_id ` set cs)"
  by (simp add: filter_summary_df metric_rows_props sum_list_value_counts length_bol_spread)

theorem summary_totals_witness:
  "card (bol_id ` set (containers sample_grammar sample_table)) = 2
   \<and> sum_list (map count (filter (\<lambda>r. metric r = ''ETA'')
        (summary_df (bol_spread (containers sample_grammar sample_table))))) = 2
   \<and> sum_list (map count (filter (\<lambda>r. metric r = ''ATA'')
        (summary_df (bol_spread (containers sample_grammar sample_table))))) = 2"
proof -
  have c: "card (bol_id ` set (containers sample_grammar sample_table)) = 2"
    unfolding containers_sample by (simp add: c1_def c2_def c3_def c4_def card_insert_if)
  show ?thesis using c summary_totals [of "containers sample_grammar sample_table"] by simp
qed

end
